theory Spec2Isabelle
  imports Main "HOL-Library.Word"
begin

unbundle bit_operations_syntax

section \<open>Go values\<close>

text \<open>
  The provider reads its configuration through \<^verbatim>\<open>d.Get\<close>, which returns values of the
  empty interface type (\<^verbatim>\<open>any\<close>).  A value of that type carries its dynamic type, and a
  type assertion \<^verbatim>\<open>x.(T)\<close> to a concrete type \<^verbatim>\<open>T\<close> succeeds only when the dynamic type
  is identical to \<^verbatim>\<open>T\<close>; otherwise the program panics.  The dynamic types that occur in
  \<^verbatim>\<open>resource_deployment.go\<close> are \<^verbatim>\<open>string\<close>, \<^verbatim>\<open>bool\<close>, \<^verbatim>\<open>[]any\<close>,
  \<^verbatim>\<open>map[string]any\<close> and the named string type \<^verbatim>\<open>codedeployTypes.BundleType\<close>.
\<close>

datatype any =
    ANil
  | AString string
  | ABool bool
  | ABundleType string
  | AList "any list"
  | AMap "string \<Rightarrow> any option"

datatype panic = InterfaceConversion | IndexOutOfRange | NilPointerDereference

type_synonym byte = "8 word"

text \<open>\<^verbatim>\<open>m[k]\<close> on a \<^verbatim>\<open>map[string]any\<close>: a missing key reads as the nil interface.\<close>

definition index :: "(string \<Rightarrow> any option) \<Rightarrow> string \<Rightarrow> any" where
  "index m k = (case m k of None \<Rightarrow> ANil | Some v \<Rightarrow> v)"

text \<open>The comparison \<^verbatim>\<open>x == nil\<close> of an interface value.\<close>

fun is_nil :: "any \<Rightarrow> bool" where
  "is_nil ANil = True"
| "is_nil _ = False"

text \<open>The type assertions \<^verbatim>\<open>x.(string)\<close>, \<^verbatim>\<open>x.(bool)\<close>, \<^verbatim>\<open>x.(codedeployTypes.BundleType)\<close>,
  \<^verbatim>\<open>x.([]any)\<close> and \<^verbatim>\<open>x.(map[string]any)\<close>.\<close>

fun assert_string :: "any \<Rightarrow> panic + string" where
  "assert_string (AString s) = Inr s"
| "assert_string _ = Inl InterfaceConversion"

fun assert_bool :: "any \<Rightarrow> panic + bool" where
  "assert_bool (ABool b) = Inr b"
| "assert_bool _ = Inl InterfaceConversion"

fun assert_BundleType :: "any \<Rightarrow> panic + string" where
  "assert_BundleType (ABundleType s) = Inr s"
| "assert_BundleType _ = Inl InterfaceConversion"

fun assert_list :: "any \<Rightarrow> panic + any list" where
  "assert_list (AList xs) = Inr xs"
| "assert_list _ = Inl InterfaceConversion"

fun assert_map :: "any \<Rightarrow> panic + (string \<Rightarrow> any option)" where
  "assert_map (AMap m) = Inr m"
| "assert_map _ = Inl InterfaceConversion"

text \<open>The expression \<^verbatim>\<open>x.([]any)[0].(map[string]any)\<close>, which selects the single nested
  block of a list attribute.\<close>

definition first_block :: "any \<Rightarrow> panic + (string \<Rightarrow> any option)" where
  "first_block x =
     (case assert_list x of
        Inl p \<Rightarrow> Inl p
      | Inr [] \<Rightarrow> Inl IndexOutOfRange
      | Inr (b # bs) \<Rightarrow> assert_map b)"

section \<open>SHA-256 and hexadecimal encoding\<close>

text \<open>
  \<^verbatim>\<open>crypto/sha256.Sum256\<close> and \<^verbatim>\<open>encoding/hex.EncodeToString\<close> of the Go standard
  library, written out after FIPS 180-4 so that the digest can be computed.
\<close>

definition rotr :: "nat \<Rightarrow> 32 word \<Rightarrow> 32 word" where
  "rotr n x = drop_bit n x OR push_bit (32 - n) x"

definition Ch :: "32 word \<Rightarrow> 32 word \<Rightarrow> 32 word \<Rightarrow> 32 word" where
  "Ch x y z = (x AND y) XOR (NOT x AND z)"

definition Maj :: "32 word \<Rightarrow> 32 word \<Rightarrow> 32 word \<Rightarrow> 32 word" where
  "Maj x y z = (x AND y) XOR (x AND z) XOR (y AND z)"

definition bsig0 :: "32 word \<Rightarrow> 32 word" where
  "bsig0 x = rotr 2 x XOR rotr 13 x XOR rotr 22 x"

definition bsig1 :: "32 word \<Rightarrow> 32 word" where
  "bsig1 x = rotr 6 x XOR rotr 11 x XOR rotr 25 x"

definition ssig0 :: "32 word \<Rightarrow> 32 word" where
  "ssig0 x = rotr 7 x XOR rotr 18 x XOR drop_bit 3 x"

definition ssig1 :: "32 word \<Rightarrow> 32 word" where
  "ssig1 x = rotr 17 x XOR rotr 19 x XOR drop_bit 10 x"

text \<open>The round constants \<^verbatim>\<open>_K\<close> and the initial hash value, as numbers (the first
  round constant is 0x428a2f98, the first word of the initial value 0x6a09e667).\<close>

definition sha256_K :: "32 word list" where
  "sha256_K =
    [1116352408, 1899447441, 3049323471, 3921009573, 961987163, 1508970993,
     2453635748, 2870763221, 3624381080, 310598401, 607225278, 1426881987,
     1925078388, 2162078206, 2614888103, 3248222580, 3835390401, 4022224774,
     264347078, 604807628, 770255983, 1249150122, 1555081692, 1996064986,
     2554220882, 2821834349, 2952996808, 3210313671, 3336571891, 3584528711,
     113926993, 338241895, 666307205, 773529912, 1294757372, 1396182291,
     1695183700, 1986661051, 2177026350, 2456956037, 2730485921, 2820302411,
     3259730800, 3345764771, 3516065817, 3600352804, 4094571909, 275423344,
     430227734, 506948616, 659060556, 883997877, 958139571, 1322822218,
     1537002063, 1747873779, 1955562222, 2024104815, 2227730452, 2361852424,
     2428436474, 2756734187, 3204031479, 3329325298]"

definition sha256_init :: "32 word list" where
  "sha256_init =
    [1779033703, 3144134277, 1013904242, 2773480762,
     1359893119, 2600822924, 528734635, 1541459225]"

text \<open>Padding: the byte 0x80, zero bytes up to 56 modulo 64, and the bit length as a
  big-endian 64-bit number (the length counter is a \<^verbatim>\<open>uint64\<close> and wraps).\<close>

definition be64 :: "64 word \<Rightarrow> byte list" where
  "be64 n = map (\<lambda>i. ucast (drop_bit (8 * (7 - i)) n)) [0..<8]"

definition be32 :: "32 word \<Rightarrow> byte list" where
  "be32 n = map (\<lambda>i. ucast (drop_bit (8 * (3 - i)) n)) [0..<4]"

definition sha256_pad :: "byte list \<Rightarrow> byte list" where
  "sha256_pad m =
     m @ [0x80] @ replicate ((119 - length m mod 64) mod 64) 0 @ be64 (word_of_nat (8 * length m))"

fun chop :: "nat \<Rightarrow> nat \<Rightarrow> 'a list \<Rightarrow> 'a list list" where
  "chop 0 n xs = []"
| "chop (Suc k) n xs = take n xs # chop k n (drop n xs)"

definition word_of_be32 :: "byte list \<Rightarrow> 32 word" where
  "word_of_be32 bs = foldl (\<lambda>w b. push_bit 8 w OR ucast b) 0 bs"

text \<open>The message schedule: sixteen words of the block, extended to sixty-four.\<close>

fun schedule :: "nat \<Rightarrow> 32 word list \<Rightarrow> 32 word list" where
  "schedule 0 w = w"
| "schedule (Suc n) w =
     schedule n
       (w @ [ssig1 (w ! (length w - 2)) + w ! (length w - 7)
             + ssig0 (w ! (length w - 15)) + w ! (length w - 16)])"

fun sha256_round :: "32 word list \<Rightarrow> 32 word \<times> 32 word \<Rightarrow> 32 word list" where
  "sha256_round [a, b, c, d, e, f, g, h] (k, w) =
     (let t1 = h + bsig1 e + Ch e f g + k + w;
          t2 = bsig0 a + Maj a b c
      in [t1 + t2, a, b, c, d + t1, e, f, g])"
| "sha256_round s _ = s"

definition sha256_block :: "32 word list \<Rightarrow> byte list \<Rightarrow> 32 word list" where
  "sha256_block h block =
     (let w = schedule 48 (map word_of_be32 (chop 16 4 block))
      in map2 (+) h (foldl sha256_round h (zip sha256_K w)))"

definition Sum256 :: "byte list \<Rightarrow> byte list" where
  "Sum256 data =
     (let p = sha256_pad data
      in concat (map be32 (foldl sha256_block sha256_init (chop (length p div 64) 64 p))))"

definition hextable :: string where
  "hextable = ''0123456789abcdef''"

fun EncodeToString :: "byte list \<Rightarrow> string" where
  "EncodeToString [] = []"
| "EncodeToString (b # bs) =
     hextable ! unat (drop_bit 4 b) # hextable ! unat (b AND 0x0f) # EncodeToString bs"

text \<open>The conversion \<^verbatim>\<open>[]byte(s)\<close> of a string to its bytes.\<close>

definition bytes :: "string \<Rightarrow> byte list" where
  "bytes s = map of_char s"

section \<open>The deployment request\<close>

text \<open>
  The request and response structures of the CodeDeploy client, with the fields that
  \<^verbatim>\<open>resource_deployment.go\<close> reads or writes.  A pointer field is an option (\<open>None\<close> is
  the nil pointer, \<^verbatim>\<open>aws.String(s)\<close> is \<open>Some s\<close>); a field of a string type holds the
  empty string when it is not set.
\<close>

record S3Location =
  Bucket :: "string option"
  Key :: "string option"
  BundleType :: string

record GitHubLocation =
  Repository :: "string option"
  CommitId :: "string option"

record AppSpecContent =
  Content :: "string option"
  Sha256 :: "string option"

record RevisionLocation =
  RevisionType :: string
  S3Location :: "S3Location option"
  GitHubLocation :: "GitHubLocation option"
  AppSpecContent :: "AppSpecContent option"

record CreateDeploymentInput =
  ApplicationName :: "string option"
  DeploymentGroupName :: "string option"
  Revision :: "RevisionLocation option"

text \<open>The constants of \<^verbatim>\<open>codedeployTypes.RevisionLocationType\<close> that the resource uses.\<close>

definition RevisionLocationTypeS3 :: string where
  "RevisionLocationTypeS3 = ''S3''"

definition RevisionLocationTypeGitHub :: string where
  "RevisionLocationTypeGitHub = ''GitHub''"

definition RevisionLocationTypeAppSpecContent :: string where
  "RevisionLocationTypeAppSpecContent = ''AppSpecContent''"

text \<open>\<^verbatim>\<open>var input codedeploy.CreateDeploymentInput\<close>: the zero value.\<close>

definition zero_CreateDeploymentInput :: CreateDeploymentInput where
  "zero_CreateDeploymentInput =
     \<lparr>ApplicationName = None, DeploymentGroupName = None, Revision = None\<rparr>"

section \<open>The revision resolver (current version of the resource file)\<close>

definition prepareDeploymentInputWithS3Location ::
  "string \<Rightarrow> string \<Rightarrow> (string \<Rightarrow> any option) \<Rightarrow> panic + CreateDeploymentInput" where
  "prepareDeploymentInputWithS3Location applicationName deploymentGroupName s3Location =
     (case assert_string (index s3Location ''bucket'') of
        Inl p \<Rightarrow> Inl p
      | Inr bucket \<Rightarrow>
     (case assert_string (index s3Location ''key'') of
        Inl p \<Rightarrow> Inl p
      | Inr key \<Rightarrow>
     (case assert_BundleType (index s3Location ''bundle_type'') of
        Inl p \<Rightarrow> Inl p
      | Inr bundleType \<Rightarrow>
          Inr \<lparr>ApplicationName = Some applicationName,
               DeploymentGroupName = Some deploymentGroupName,
               Revision = Some
                 \<lparr>RevisionType = RevisionLocationTypeS3,
                  S3Location = Some \<lparr>Bucket = Some bucket, Key = Some key, BundleType = bundleType\<rparr>,
                  GitHubLocation = None,
                  AppSpecContent = None\<rparr>\<rparr>)))"

definition prepareDeploymentInputWithGitHubLocation ::
  "string \<Rightarrow> string \<Rightarrow> (string \<Rightarrow> any option) \<Rightarrow> panic + CreateDeploymentInput" where
  "prepareDeploymentInputWithGitHubLocation applicationName deploymentGroupName githubLocation =
     (case assert_string (index githubLocation ''repository'') of
        Inl p \<Rightarrow> Inl p
      | Inr repository \<Rightarrow>
     (case assert_string (index githubLocation ''commit_id'') of
        Inl p \<Rightarrow> Inl p
      | Inr commitId \<Rightarrow>
          Inr \<lparr>ApplicationName = Some applicationName,
               DeploymentGroupName = Some deploymentGroupName,
               Revision = Some
                 \<lparr>RevisionType = RevisionLocationTypeGitHub,
                  S3Location = None,
                  GitHubLocation = Some \<lparr>Repository = Some repository, CommitId = Some commitId\<rparr>,
                  AppSpecContent = None\<rparr>\<rparr>))"

definition prepareDeploymentInputWithAppSpecContent ::
  "string \<Rightarrow> string \<Rightarrow> (string \<Rightarrow> any option) \<Rightarrow> panic + CreateDeploymentInput" where
  "prepareDeploymentInputWithAppSpecContent applicationName deploymentGroupName appSpecContent =
     (case assert_string (index appSpecContent ''content'') of
        Inl p \<Rightarrow> Inl p
      | Inr content \<Rightarrow>
     (case (if is_nil (index appSpecContent ''sha256'')
            then Inr (EncodeToString (Sum256 (bytes content)))
            else assert_string (index appSpecContent ''sha256'')) of
        Inl p \<Rightarrow> Inl p
      | Inr sha256Hash \<Rightarrow>
          Inr \<lparr>ApplicationName = Some applicationName,
               DeploymentGroupName = Some deploymentGroupName,
               Revision = Some
                 \<lparr>RevisionType = RevisionLocationTypeAppSpecContent,
                  S3Location = None,
                  GitHubLocation = None,
                  AppSpecContent = Some \<lparr>Content = Some content, Sha256 = Some sha256Hash\<rparr>\<rparr>\<rparr>))"

section \<open>The revision resolver (earlier version of the resource file)\<close>

text \<open>The earlier version of the file declares the same three functions over
  \<^verbatim>\<open>map[string]interface{}\<close>; they are translated from that file on their own.\<close>

definition prepareDeploymentInputWithS3Location_old ::
  "string \<Rightarrow> string \<Rightarrow> (string \<Rightarrow> any option) \<Rightarrow> panic + CreateDeploymentInput" where
  "prepareDeploymentInputWithS3Location_old applicationName deploymentGroupName s3Location =
     (case assert_string (index s3Location ''bucket'') of
        Inl p \<Rightarrow> Inl p
      | Inr bucket \<Rightarrow>
     (case assert_string (index s3Location ''key'') of
        Inl p \<Rightarrow> Inl p
      | Inr key \<Rightarrow>
     (case assert_BundleType (index s3Location ''bundle_type'') of
        Inl p \<Rightarrow> Inl p
      | Inr bundleType \<Rightarrow>
          Inr \<lparr>ApplicationName = Some applicationName,
               DeploymentGroupName = Some deploymentGroupName,
               Revision = Some
                 \<lparr>RevisionType = RevisionLocationTypeS3,
                  S3Location = Some \<lparr>Bucket = Some bucket, Key = Some key, BundleType = bundleType\<rparr>,
                  GitHubLocation = None,
                  AppSpecContent = None\<rparr>\<rparr>)))"

definition prepareDeploymentInputWithGitHubLocation_old ::
  "string \<Rightarrow> string \<Rightarrow> (string \<Rightarrow> any option) \<Rightarrow> panic + CreateDeploymentInput" where
  "prepareDeploymentInputWithGitHubLocation_old applicationName deploymentGroupName githubLocation =
     (case assert_string (index githubLocation ''repository'') of
        Inl p \<Rightarrow> Inl p
      | Inr repository \<Rightarrow>
     (case assert_string (index githubLocation ''commit_id'') of
        Inl p \<Rightarrow> Inl p
      | Inr commitId \<Rightarrow>
          Inr \<lparr>ApplicationName = Some applicationName,
               DeploymentGroupName = Some deploymentGroupName,
               Revision = Some
                 \<lparr>RevisionType = RevisionLocationTypeGitHub,
                  S3Location = None,
                  GitHubLocation = Some \<lparr>Repository = Some repository, CommitId = Some commitId\<rparr>,
                  AppSpecContent = None\<rparr>\<rparr>))"

definition prepareDeploymentInputWithAppSpecContent_old ::
  "string \<Rightarrow> string \<Rightarrow> (string \<Rightarrow> any option) \<Rightarrow> panic + CreateDeploymentInput" where
  "prepareDeploymentInputWithAppSpecContent_old applicationName deploymentGroupName appSpecContent =
     (case assert_string (index appSpecContent ''content'') of
        Inl p \<Rightarrow> Inl p
      | Inr content \<Rightarrow>
     (case (if is_nil (index appSpecContent ''sha256'')
            then Inr (EncodeToString (Sum256 (bytes content)))
            else assert_string (index appSpecContent ''sha256'')) of
        Inl p \<Rightarrow> Inl p
      | Inr sha256Hash \<Rightarrow>
          Inr \<lparr>ApplicationName = Some applicationName,
               DeploymentGroupName = Some deploymentGroupName,
               Revision = Some
                 \<lparr>RevisionType = RevisionLocationTypeAppSpecContent,
                  S3Location = None,
                  GitHubLocation = None,
                  AppSpecContent = Some \<lparr>Content = Some content, Sha256 = Some sha256Hash\<rparr>\<rparr>\<rparr>))"

section \<open>Diagnostics, resource data and the client\<close>

text \<open>\<^verbatim>\<open>diag.Diagnostics\<close> of the plugin SDK: a list of diagnostics, each an error or a
  warning.  \<^verbatim>\<open>diag.FromErr\<close> turns a non-nil error into one error diagnostic and the nil
  error into the nil (empty) list.\<close>

type_synonym error = string

datatype Severity = Error | Warning

record Diagnostic =
  Severity :: Severity
  Summary :: string

definition FromErr :: "error option \<Rightarrow> Diagnostic list" where
  "FromErr err = (case err of None \<Rightarrow> [] | Some e \<Rightarrow> [\<lparr>Severity = Error, Summary = e\<rparr>])"

definition HasError :: "Diagnostic list \<Rightarrow> bool" where
  "HasError diags = list_ex (\<lambda>x. Severity x = Error) diags"

text \<open>\<^verbatim>\<open>time.Duration\<close> is a signed 64-bit count of nanoseconds.\<close>

type_synonym Duration = "64 word"

definition Second :: Duration where
  "Second = 1000000000"

definition TimeoutCreate :: string where
  "TimeoutCreate = ''create''"

text \<open>
  \<^verbatim>\<open>schema.ResourceData\<close>: the attribute values read by \<^verbatim>\<open>d.Get\<close>, the identity read by
  \<^verbatim>\<open>d.Id()\<close> and written by \<^verbatim>\<open>d.SetId\<close>, and the operation timeouts read by
  \<^verbatim>\<open>d.Timeout\<close>.  \<^verbatim>\<open>d.Set\<close> returns an error or stores the value; which of the two
  happens is decided by the SDK, so it is a component of the data (\<open>SetError\<close>).
\<close>

record ResourceData =
  Get :: "string \<Rightarrow> any"
  Id_rd :: string
  Timeout :: "string \<Rightarrow> Duration"
  SetError :: "string \<Rightarrow> any \<Rightarrow> error option"

definition SetId :: "ResourceData \<Rightarrow> string \<Rightarrow> ResourceData" where
  "SetId d v = d\<lparr>Id_rd := v\<rparr>"

definition Set_rd :: "ResourceData \<Rightarrow> string \<Rightarrow> any \<Rightarrow> error option \<times> ResourceData" where
  "Set_rd d key v =
     (case SetError d key v of
        Some e \<Rightarrow> (Some e, d)
      | None \<Rightarrow> (None, d\<lparr>Get := (Get d)(key := v)\<rparr>))"

text \<open>The responses of the remote service.\<close>

record CreateDeploymentOutput =
  DeploymentId :: "string option"

record DeploymentInfo =
  DeploymentId :: "string option"
  Status :: string

record GetDeploymentOutput =
  DeploymentInfo :: "DeploymentInfo option"

definition DeploymentStatusSucceeded :: string where
  "DeploymentStatusSucceeded = ''Succeeded''"

definition DeploymentStatusFailed :: string where
  "DeploymentStatusFailed = ''Failed''"

definition DeploymentStatusStopped :: string where
  "DeploymentStatusStopped = ''Stopped''"

text \<open>
  \<^verbatim>\<open>codedeploy.Client\<close> and the waiter built on it are external: each operation is a
  function from its request to the pair (output, error) that Go returns.  The waiter takes
  its \<^verbatim>\<open>MaxDelay\<close> option, the deployment id and the maximum wait duration.  Every
  request sent is recorded, in order, as a \<open>call\<close>.
\<close>

record Client =
  CreateDeployment :: "CreateDeploymentInput \<Rightarrow> CreateDeploymentOutput option \<times> error option"
  WaitForOutput :: "Duration \<Rightarrow> string option \<Rightarrow> Duration \<Rightarrow> GetDeploymentOutput option \<times> error option"
  GetDeployment :: "string option \<Rightarrow> GetDeploymentOutput option \<times> error option"
  StopDeployment :: "string option \<Rightarrow> bool option \<Rightarrow> error option"

datatype call =
    CreateDeploymentCall CreateDeploymentInput
  | WaitForOutputCall Duration "string option" Duration
  | GetDeploymentCall "string option"
  | StopDeploymentCall "string option" "bool option"

type_synonym outcome = "call list \<times> (panic + Diagnostic list \<times> ResourceData)"

section \<open>The lifecycle operations\<close>

definition resourceDeploymentRead :: "Client \<Rightarrow> ResourceData \<Rightarrow> outcome" where
  "resourceDeploymentRead svc d =
     (let deploymentID = Id_rd d;
          calls = [GetDeploymentCall (Some deploymentID)]
      in case GetDeployment svc (Some deploymentID) of
           (deployment, Some err) \<Rightarrow> (calls, Inr (FromErr (Some err), d))
         | (None, None) \<Rightarrow> (calls, Inl NilPointerDereference)
         | (Some deployment, None) \<Rightarrow>
             (case DeploymentInfo deployment of
                None \<Rightarrow> (calls, Inl NilPointerDereference)
              | Some info \<Rightarrow>
                  (case Set_rd d ''deployment_status'' (AString (Status info)) of
                     (Some e, d') \<Rightarrow> (calls, Inr (FromErr None, d'))
                   | (None, d') \<Rightarrow> (calls, Inr ([], d')))))"

text \<open>The first part of \<^verbatim>\<open>resourceDeploymentCreate\<close>: reading the configuration and
  dispatching on the revision type.  The \<^verbatim>\<open>switch\<close> has no default branch, so any other
  revision type leaves \<^verbatim>\<open>input\<close> at its zero value.\<close>

definition resourceDeploymentCreate_input :: "ResourceData \<Rightarrow> panic + CreateDeploymentInput" where
  "resourceDeploymentCreate_input d =
     (case assert_string (Get d ''application_name'') of
        Inl p \<Rightarrow> Inl p
      | Inr applicationName \<Rightarrow>
     (case assert_string (Get d ''deployment_group_name'') of
        Inl p \<Rightarrow> Inl p
      | Inr deploymentGroupName \<Rightarrow>
     (case first_block (Get d ''revision'') of
        Inl p \<Rightarrow> Inl p
      | Inr revision \<Rightarrow>
     (case assert_string (index revision ''revision_type'') of
        Inl p \<Rightarrow> Inl p
      | Inr revisionType \<Rightarrow>
          if revisionType = RevisionLocationTypeS3 then
            (case first_block (index revision ''s3_location'') of
               Inl p \<Rightarrow> Inl p
             | Inr s3Location \<Rightarrow>
                 prepareDeploymentInputWithS3Location applicationName deploymentGroupName s3Location)
          else if revisionType = RevisionLocationTypeGitHub then
            (case first_block (index revision ''github_location'') of
               Inl p \<Rightarrow> Inl p
             | Inr githubLocation \<Rightarrow>
                 prepareDeploymentInputWithGitHubLocation applicationName deploymentGroupName githubLocation)
          else if revisionType = RevisionLocationTypeAppSpecContent then
            (case first_block (index revision ''appspec_content'') of
               Inl p \<Rightarrow> Inl p
             | Inr appSpecContent \<Rightarrow>
                 prepareDeploymentInputWithAppSpecContent applicationName deploymentGroupName appSpecContent)
          else Inr zero_CreateDeploymentInput))))"

definition resourceDeploymentCreate :: "Client \<Rightarrow> ResourceData \<Rightarrow> outcome" where
  "resourceDeploymentCreate svc d =
     (case resourceDeploymentCreate_input d of
        Inl p \<Rightarrow> ([], Inl p)
      | Inr input \<Rightarrow>
         (case CreateDeployment svc input of
            (deployment, Some err) \<Rightarrow> ([CreateDeploymentCall input], Inr (FromErr (Some err), d))
          | (None, None) \<Rightarrow> ([CreateDeploymentCall input], Inl NilPointerDereference)
          | (Some deployment, None) \<Rightarrow>
              (let delay = 15 * Second;
                   deploymentId = CreateDeploymentOutput.DeploymentId deployment;
                   maxWaitDur = Timeout d TimeoutCreate - delay;
                   calls = [CreateDeploymentCall input, WaitForOutputCall delay deploymentId maxWaitDur]
               in case WaitForOutput svc delay deploymentId maxWaitDur of
                    (output, Some err) \<Rightarrow>
                      (let diags = FromErr (Some err)
                       in if output = None then
                            (case assert_bool (Get d ''auto_rollback_enabled'') of
                               Inl p \<Rightarrow> (calls, Inl p)
                             | Inr rollback \<Rightarrow>
                                 (calls @ [StopDeploymentCall deploymentId (Some rollback)],
                                  Inr (case StopDeployment svc deploymentId (Some rollback) of
                                         Some err' \<Rightarrow> diags @ FromErr (Some err')
                                       | None \<Rightarrow> diags,
                                       d)))
                          else (calls, Inr (diags, d)))
                  | (output, None) \<Rightarrow>
                      (case deploymentId of
                         None \<Rightarrow> (calls, Inl NilPointerDereference)
                       | Some i \<Rightarrow>
                           (case resourceDeploymentRead svc (SetId d i) of
                              (calls', r) \<Rightarrow> (calls @ calls', r))))))"

definition resourceDeploymentUpdate :: "Client \<Rightarrow> ResourceData \<Rightarrow> outcome" where
  "resourceDeploymentUpdate svc d = ([], Inr ([], d))"

definition resourceDeploymentDelete :: "Client \<Rightarrow> ResourceData \<Rightarrow> outcome" where
  "resourceDeploymentDelete svc d =
     (let deploymentID = Id_rd d;
          calls = [GetDeploymentCall (Some deploymentID)]
      in case GetDeployment svc (Some deploymentID) of
           (deployment, Some err) \<Rightarrow> (calls, Inr ([\<lparr>Severity = Warning, Summary = err\<rparr>], d))
         | (None, None) \<Rightarrow> (calls, Inl NilPointerDereference)
         | (Some deployment, None) \<Rightarrow>
             (case DeploymentInfo deployment of
                None \<Rightarrow> (calls, Inl NilPointerDereference)
              | Some info \<Rightarrow>
                  if Status info \<noteq> DeploymentStatusSucceeded \<and>
                     Status info \<noteq> DeploymentStatusFailed \<and>
                     Status info \<noteq> DeploymentStatusStopped
                  then
                    (case assert_bool (Get d ''auto_rollback_enabled'') of
                       Inl p \<Rightarrow> (calls, Inl p)
                     | Inr rollback \<Rightarrow>
                         (calls @ [StopDeploymentCall (DeploymentInfo.DeploymentId info) (Some rollback)],
                          Inr (case StopDeployment svc (DeploymentInfo.DeploymentId info) (Some rollback) of
                                 Some err \<Rightarrow> [\<lparr>Severity = Warning, Summary = err\<rparr>]
                               | None \<Rightarrow> [],
                               d)))
                  else (calls, Inr ([], d))))"

section \<open>Concrete configurations and service responses\<close>

text \<open>
  A revision block as the schema hands it over: a one-element list holding a map with the
  revision type and the three nested location lists.  A string attribute that the
  configuration leaves out reads as the empty string, and a nested block that is left out
  as the empty list.
\<close>

definition example_revision :: "string \<Rightarrow> any \<Rightarrow> any \<Rightarrow> any \<Rightarrow> any" where
  "example_revision revisionType s3 github appspec =
     AList [AMap [''revision_type'' \<mapsto> AString revisionType,
                  ''s3_location'' \<mapsto> s3,
                  ''github_location'' \<mapsto> github,
                  ''appspec_content'' \<mapsto> appspec]]"

definition example_s3 :: any where
  "example_s3 =
     example_revision ''S3''
       (AList [AMap [''bucket'' \<mapsto> AString ''artifacts'',
                     ''key'' \<mapsto> AString ''app.zip'',
                     ''bundle_type'' \<mapsto> AString ''zip'']])
       (AList []) (AList [])"

definition example_github :: any where
  "example_github =
     example_revision ''GitHub'' (AList [])
       (AList [AMap [''repository'' \<mapsto> AString ''org/repo'',
                     ''commit_id'' \<mapsto> AString ''0a1b2c'']])
       (AList [])"

definition example_appspec :: "string \<Rightarrow> any" where
  "example_appspec hash =
     example_revision ''AppSpecContent'' (AList []) (AList [])
       (AList [AMap [''content'' \<mapsto> AString ''abc'', ''sha256'' \<mapsto> AString hash]])"

definition example_data :: "string \<Rightarrow> any \<Rightarrow> ResourceData" where
  "example_data deploymentID revision =
     \<lparr>Get = (\<lambda>k. if k = ''application_name'' then AString ''app''
                  else if k = ''deployment_group_name'' then AString ''group''
                  else if k = ''revision'' then revision
                  else if k = ''auto_rollback_enabled'' then ABool True
                  else if k = ''deployment_status'' then AString []
                  else ANil),
      Id_rd = deploymentID,
      Timeout = (\<lambda>k. 3600 * Second),
      SetError = (\<lambda>k v. None)\<rparr>"

definition example_output :: "string \<Rightarrow> string \<Rightarrow> GetDeploymentOutput" where
  "example_output deploymentId status =
     \<lparr>DeploymentInfo = Some \<lparr>DeploymentId = Some deploymentId, Status = status\<rparr>\<rparr>"

definition example_client ::
  "string \<Rightarrow> GetDeploymentOutput option \<times> error option
     \<Rightarrow> GetDeploymentOutput option \<times> error option \<Rightarrow> error option \<Rightarrow> Client" where
  "example_client newId waited fetched stopped =
     \<lparr>CreateDeployment = (\<lambda>input. (Some \<lparr>CreateDeploymentOutput.DeploymentId = Some newId\<rparr>, None)),
      WaitForOutput = (\<lambda>maxDelay deploymentId maxWaitDur. waited),
      GetDeployment = (\<lambda>deploymentId. fetched),
      StopDeployment = (\<lambda>deploymentId rollback. stopped)\<rparr>"

text \<open>The stop requests among the calls of an operation.\<close>

fun is_stop :: "call \<Rightarrow> bool" where
  "is_stop (StopDeploymentCall deploymentId rollback) = True"
| "is_stop _ = False"

definition stop_calls :: "call list \<Rightarrow> call list" where
  "stop_calls calls = filter is_stop calls"

definition example_github_input :: CreateDeploymentInput where
  "example_github_input =
     \<lparr>ApplicationName = Some ''app'', DeploymentGroupName = Some ''group'',
      Revision = Some
        \<lparr>RevisionType = ''GitHub'', S3Location = None,
         GitHubLocation = Some \<lparr>Repository = Some ''org/repo'', CommitId = Some ''0a1b2c''\<rparr>,
         AppSpecContent = None\<rparr>\<rparr>"

section \<open>Facts shared by the proofs\<close>

lemmas example_defs = example_revision_def example_s3_def example_github_def example_appspec_def
  example_data_def example_output_def example_client_def

lemmas resolver_defs = resourceDeploymentCreate_input_def first_block_def index_def
  RevisionLocationTypeS3_def RevisionLocationTypeGitHub_def RevisionLocationTypeAppSpecContent_def
  prepareDeploymentInputWithS3Location_def prepareDeploymentInputWithGitHubLocation_def
  prepareDeploymentInputWithAppSpecContent_def

lemma create_input_example_github:
  "resourceDeploymentCreate_input (example_data i example_github) = Inr example_github_input"
  by (simp add: resolver_defs example_defs example_github_input_def)

lemma fifteen_seconds: "15 * Second = (15000000000 :: Duration)"
  by (simp add: Second_def)

lemma example_wait_budget: "3600 * Second - 15 * Second = (3585000000000 :: Duration)"
  by (simp add: Second_def)

lemma wait_budget_no_wrap:
  fixes t :: Duration
  assumes "- (2 ^ 63) + 15000000000 \<le> sint t"
  shows "sint (t - 15 * Second) = sint t - 15000000000"
proof -
  have s: "sint (15 * Second :: Duration) = 15000000000"
    by (simp add: Second_def)
  have "sint t < 2 ^ 63"
    using sint_lt [of t] by simp
  with assms s show ?thesis
    by (simp add: sint_word_ariths signed_take_bit_int_eq_self)
qed

section \<open>Create: the wait step\<close>

text \<open>
  C6.  Once the request has been resolved and submitted, create calls the waiter with a
  maximum inter-poll delay of 15 seconds (15000000000 ns) and with a maximum wait
  duration equal to the configured create timeout minus those 15 seconds.  The
  subtraction is the one of \<^verbatim>\<open>time.Duration\<close> (64-bit); unless it wraps around, the
  duration passed is the timeout less 15 seconds as an integer as well.
\<close>

theorem create_wait_budget:
  assumes "resourceDeploymentCreate_input d = Inr req"
    and "CreateDeployment svc req = (Some deployment, None)"
  shows "(\<exists>calls. fst (resourceDeploymentCreate svc d) =
            CreateDeploymentCall req
            # WaitForOutputCall (15 * Second) (CreateDeploymentOutput.DeploymentId deployment)
                (Timeout d TimeoutCreate - 15 * Second)
            # calls)
         \<and> 15 * Second = (15000000000 :: Duration)
         \<and> (- (2 ^ 63) + 15000000000 \<le> sint (Timeout d TimeoutCreate) \<longrightarrow>
              sint (Timeout d TimeoutCreate - 15 * Second)
                = sint (Timeout d TimeoutCreate) - 15000000000)"
proof -
  have "\<exists>calls. fst (resourceDeploymentCreate svc d) =
            CreateDeploymentCall req
            # WaitForOutputCall (15 * Second) (CreateDeploymentOutput.DeploymentId deployment)
                (Timeout d TimeoutCreate - 15 * Second)
            # calls"
    using assms
    by (simp add: resourceDeploymentCreate_def Let_def split: prod.splits option.splits sum.splits)
  then show ?thesis
    using wait_budget_no_wrap [of "Timeout d TimeoutCreate"] by (simp add: fifteen_seconds)
qed

theorem create_wait_budget_witness:
  "resourceDeploymentCreate_input (example_data [] example_github) = Inr example_github_input
   \<and> fst (resourceDeploymentCreate
            (example_client ''d-123'' (None, Some ''exceeded max wait time'') (None, None) None)
            (example_data [] example_github)) ! 1 =
       WaitForOutputCall 15000000000 (Some ''d-123'') 3585000000000
   \<and> sint (3585000000000 :: Duration) = 3600000000000 - 15000000000"
  using create_wait_budget
    [of "example_data [] example_github" example_github_input
        "example_client ''d-123'' (None, Some ''exceeded max wait time'') (None, None) None"
        "\<lparr>CreateDeploymentOutput.DeploymentId = Some ''d-123''\<rparr>"]
    create_input_example_github [of "[]"]
  by (auto simp add: example_client_def example_data_def TimeoutCreate_def Second_def)

text \<open>
  C1 (as the code has it).  When the wait step fails, the test on the waiter's output
  runs the other way round: if the waiter returned no output, create calls Stop with the
  deployment id returned by the submit call and the configured rollback flag, and appends
  an error of that Stop to the diagnostics of the wait failure; if the waiter did return an
  output, no Stop call is made and the diagnostics of the wait failure are returned alone.
  In both cases create reports an error and leaves the resource data as it was.
\<close>

theorem create_wait_failure:
  assumes "resourceDeploymentCreate_input d = Inr req"
    and "CreateDeployment svc req = (Some deployment, None)"
    and "WaitForOutput svc (15 * Second) (CreateDeploymentOutput.DeploymentId deployment)
           (Timeout d TimeoutCreate - 15 * Second) = (out, Some err)"
    and "Get d ''auto_rollback_enabled'' = ABool rollback"
  shows "(out = None \<longrightarrow>
            resourceDeploymentCreate svc d =
              ([CreateDeploymentCall req,
                WaitForOutputCall (15 * Second) (CreateDeploymentOutput.DeploymentId deployment)
                  (Timeout d TimeoutCreate - 15 * Second),
                StopDeploymentCall (CreateDeploymentOutput.DeploymentId deployment) (Some rollback)],
               Inr (FromErr (Some err)
                      @ FromErr (StopDeployment svc (CreateDeploymentOutput.DeploymentId deployment)
                                   (Some rollback)),
                    d)))
       \<and> (out \<noteq> None \<longrightarrow>
            resourceDeploymentCreate svc d =
              ([CreateDeploymentCall req,
                WaitForOutputCall (15 * Second) (CreateDeploymentOutput.DeploymentId deployment)
                  (Timeout d TimeoutCreate - 15 * Second)],
               Inr (FromErr (Some err), d)))
       \<and> HasError (FromErr (Some err))"
  using assms
  by (cases out)
     (simp_all add: resourceDeploymentCreate_def Let_def FromErr_def HasError_def split: option.splits)

theorem create_wait_failure_witness:
  "resourceDeploymentCreate
     (example_client ''d-456'' (None, Some ''exceeded max wait time'') (None, None) (Some ''stop refused''))
     (example_data [] example_github) =
     ([CreateDeploymentCall example_github_input,
       WaitForOutputCall 15000000000 (Some ''d-456'') 3585000000000,
       StopDeploymentCall (Some ''d-456'') (Some True)],
      Inr ([\<lparr>Severity = Error, Summary = ''exceeded max wait time''\<rparr>,
            \<lparr>Severity = Error, Summary = ''stop refused''\<rparr>],
           example_data [] example_github))"
  using create_wait_failure
    [of "example_data [] example_github" example_github_input
        "example_client ''d-456'' (None, Some ''exceeded max wait time'') (None, None) (Some ''stop refused'')"
        "\<lparr>CreateDeploymentOutput.DeploymentId = Some ''d-456''\<rparr>"
        None "''exceeded max wait time''" True]
    create_input_example_github [of "[]"]
  by (simp add: example_client_def example_data_def TimeoutCreate_def Second_def FromErr_def)

text \<open>
  The claim as the specification states it fails both ways: with no output from the
  waiter a Stop call is made, and with an output from the waiter none is made.
\<close>

theorem create_wait_failure_counterexample:
  "WaitForOutput (example_client ''d-456'' (None, Some ''exceeded max wait time'') (None, None) None)
       (15 * Second) (Some ''d-456'') (Timeout (example_data [] example_github) TimeoutCreate - 15 * Second)
     = (None, Some ''exceeded max wait time'')
   \<and> stop_calls (fst (resourceDeploymentCreate
         (example_client ''d-456'' (None, Some ''exceeded max wait time'') (None, None) None)
         (example_data [] example_github)))
     = [StopDeploymentCall (Some ''d-456'') (Some True)]
   \<and> WaitForOutput
         (example_client ''d-456'' (Some (example_output ''d-456'' ''InProgress''), Some ''exceeded max wait time'')
            (None, None) None)
         (15 * Second) (Some ''d-456'') (Timeout (example_data [] example_github) TimeoutCreate - 15 * Second)
     = (Some (example_output ''d-456'' ''InProgress''), Some ''exceeded max wait time'')
   \<and> stop_calls (fst (resourceDeploymentCreate
         (example_client ''d-456'' (Some (example_output ''d-456'' ''InProgress''), Some ''exceeded max wait time'')
            (None, None) None)
         (example_data [] example_github)))
     = []"
  apply (simp add: resourceDeploymentCreate_def create_input_example_github)
  apply (simp add: Let_def stop_calls_def example_client_def example_data_def)
  done

section \<open>Create: the persisted identity\<close>

lemma example_create_success:
  "resourceDeploymentCreate
     (example_client ''d-123'' (Some (example_output ''d-123'' ''Succeeded''), None)
        (Some (example_output ''d-123'' ''Succeeded''), None) None)
     (example_data [] example_github) =
     ([CreateDeploymentCall example_github_input,
       WaitForOutputCall 15000000000 (Some ''d-123'') 3585000000000,
       GetDeploymentCall (Some ''d-123'')],
      Inr ([], (example_data ''d-123'' example_github)
                 \<lparr>Get := (Get (example_data ''d-123'' example_github))
                           (''deployment_status'' := AString ''Succeeded'')\<rparr>))"
  apply (simp add: resourceDeploymentCreate_def create_input_example_github)
  apply (simp add: resourceDeploymentRead_def Let_def SetId_def Set_rd_def example_client_def
           example_data_def example_output_def TimeoutCreate_def Second_def)
  done

text \<open>
  C2 (as the code has it).  Create persists an identity exactly when both the submit call
  and the wait step succeed.  If the submit call fails, or the wait step fails, create
  returns error diagnostics and leaves the resource data, and so the identity, untouched.
  If both succeed, the identity is set to the submitted deployment id before the closing
  read runs, and create returns what that read returns: when the read's status fetch fails
  these are error diagnostics, with the identity already persisted; when the fetch yields
  deployment info and the status is stored, there are no diagnostics and
  \<^verbatim>\<open>deployment_status\<close> holds the fetched status.
\<close>

theorem create_identity:
  assumes run: "resourceDeploymentCreate svc d = (calls, Inr (diags, d'))"
    and req: "resourceDeploymentCreate_input d = Inr req"
  shows "(snd (CreateDeployment svc req) \<noteq> None \<longrightarrow> HasError diags \<and> d' = d)
       \<and> (\<forall>deployment. CreateDeployment svc req = (Some deployment, None) \<longrightarrow>
            (snd (WaitForOutput svc (15 * Second) (CreateDeploymentOutput.DeploymentId deployment)
                    (Timeout d TimeoutCreate - 15 * Second)) \<noteq> None
               \<longrightarrow> HasError diags \<and> d' = d)
          \<and> (snd (WaitForOutput svc (15 * Second) (CreateDeploymentOutput.DeploymentId deployment)
                    (Timeout d TimeoutCreate - 15 * Second)) = None
               \<longrightarrow> (\<exists>i. CreateDeploymentOutput.DeploymentId deployment = Some i \<and> Id_rd d' = i
                      \<and> (snd (GetDeployment svc (Some i)) \<noteq> None
                           \<longrightarrow> HasError diags \<and> d' = SetId d i)
                      \<and> (\<forall>fetched info.
                            GetDeployment svc (Some i) = (Some fetched, None)
                            \<and> DeploymentInfo fetched = Some info
                            \<and> SetError d ''deployment_status'' (AString (Status info)) = None
                            \<longrightarrow> diags = []
                                \<and> Get d' ''deployment_status'' = AString (Status info)))))"
  using run
  by (auto simp add: resourceDeploymentCreate_def req resourceDeploymentRead_def Let_def
        FromErr_def HasError_def SetId_def Set_rd_def
        split: prod.splits option.splits sum.splits if_splits)

theorem create_identity_witness:
  "resourceDeploymentCreate_input (example_data [] example_github) = Inr example_github_input
   \<and> resourceDeploymentCreate
        (example_client ''d-123'' (Some (example_output ''d-123'' ''Succeeded''), None)
           (Some (example_output ''d-123'' ''Succeeded''), None) None)
        (example_data [] example_github) =
        ([CreateDeploymentCall example_github_input,
          WaitForOutputCall 15000000000 (Some ''d-123'') 3585000000000,
          GetDeploymentCall (Some ''d-123'')],
         Inr ([], (example_data ''d-123'' example_github)
                    \<lparr>Get := (Get (example_data ''d-123'' example_github))
                              (''deployment_status'' := AString ''Succeeded'')\<rparr>))
   \<and> Id_rd ((example_data ''d-123'' example_github)
            \<lparr>Get := (Get (example_data ''d-123'' example_github))
                      (''deployment_status'' := AString ''Succeeded'')\<rparr>) = ''d-123''
   \<and> Get ((example_data ''d-123'' example_github)
            \<lparr>Get := (Get (example_data ''d-123'' example_github))
                      (''deployment_status'' := AString ''Succeeded'')\<rparr>) ''deployment_status''
       = AString ''Succeeded''"
  using create_identity [OF example_create_success create_input_example_github]
    example_create_success create_input_example_github [of "[]"]
  by (simp add: example_client_def example_data_def example_output_def)

text \<open>
  The claim as the specification states it fails when the closing read fails: create
  returns an error diagnostic although the identity \<^verbatim>\<open>d-123\<close> has been persisted.
\<close>

theorem create_identity_counterexample:
  "snd (resourceDeploymentCreate
          (example_client ''d-123'' (Some (example_output ''d-123'' ''Succeeded''), None)
             (None, Some ''throttled'') None)
          (example_data [] example_github))
     = Inr ([\<lparr>Severity = Error, Summary = ''throttled''\<rparr>], example_data ''d-123'' example_github)
   \<and> HasError [\<lparr>Severity = Error, Summary = ''throttled''\<rparr>]
   \<and> Id_rd (example_data [] example_github) = []
   \<and> Id_rd (example_data ''d-123'' example_github) = ''d-123''"
  apply (simp add: resourceDeploymentCreate_def create_input_example_github)
  apply (simp add: resourceDeploymentRead_def Let_def SetId_def FromErr_def HasError_def
           example_client_def example_data_def example_output_def)
  done

section \<open>Delete\<close>

text \<open>
  C4.  When the status fetch of delete succeeds, that is, the service answers the request
  for the stored deployment id with the info of that deployment: if the status is
  Succeeded, Failed or Stopped, no Stop call is made and delete returns no diagnostics; for
  any other status Stop is called with the stored deployment id and the configured rollback
  flag, and an error from Stop comes back as a single warning.  In every case the
  diagnostics hold no error.  (The id handed to Stop is read from the fetched info, which
  carries the id that was asked for.)
\<close>

theorem delete_fetch_success:
  assumes "GetDeployment svc (Some (Id_rd d)) = (Some deployment, None)"
    and "DeploymentInfo deployment = Some info"
    and "DeploymentInfo.DeploymentId info = Some (Id_rd d)"
    and "Get d ''auto_rollback_enabled'' = ABool rollback"
  shows "(Status info \<in> {DeploymentStatusSucceeded, DeploymentStatusFailed, DeploymentStatusStopped} \<longrightarrow>
            resourceDeploymentDelete svc d = ([GetDeploymentCall (Some (Id_rd d))], Inr ([], d))
            \<and> stop_calls (fst (resourceDeploymentDelete svc d)) = [])
       \<and> (Status info \<notin> {DeploymentStatusSucceeded, DeploymentStatusFailed, DeploymentStatusStopped} \<longrightarrow>
            resourceDeploymentDelete svc d =
              ([GetDeploymentCall (Some (Id_rd d)),
                StopDeploymentCall (Some (Id_rd d)) (Some rollback)],
               Inr (case StopDeployment svc (Some (Id_rd d)) (Some rollback) of
                      None \<Rightarrow> []
                    | Some err \<Rightarrow> [\<lparr>Severity = Warning, Summary = err\<rparr>],
                    d)))
       \<and> (\<exists>calls diags. resourceDeploymentDelete svc d = (calls, Inr (diags, d)) \<and> \<not> HasError diags)"
  using assms
  by (auto simp add: resourceDeploymentDelete_def Let_def HasError_def stop_calls_def
        split: option.splits)

theorem delete_fetch_success_witness:
  "GetDeployment
       (example_client ''d-9'' (None, None) (Some (example_output ''d-1'' ''InProgress''), None)
          (Some ''stop refused''))
       (Some (Id_rd (example_data ''d-1'' example_github)))
     = (Some (example_output ''d-1'' ''InProgress''), None)
   \<and> DeploymentInfo (example_output ''d-1'' ''InProgress'')
     = Some \<lparr>DeploymentId = Some ''d-1'', Status = ''InProgress''\<rparr>
   \<and> resourceDeploymentDelete
       (example_client ''d-9'' (None, None) (Some (example_output ''d-1'' ''InProgress''), None)
          (Some ''stop refused''))
       (example_data ''d-1'' example_github) =
       ([GetDeploymentCall (Some ''d-1''), StopDeploymentCall (Some ''d-1'') (Some True)],
        Inr ([\<lparr>Severity = Warning, Summary = ''stop refused''\<rparr>], example_data ''d-1'' example_github))"
  using delete_fetch_success
    [of "example_client ''d-9'' (None, None) (Some (example_output ''d-1'' ''InProgress''), None)
           (Some ''stop refused'')"
        "example_data ''d-1'' example_github"
        "example_output ''d-1'' ''InProgress''"
        "\<lparr>DeploymentId = Some ''d-1'', Status = ''InProgress''\<rparr>" True]
  by (simp add: example_client_def example_data_def example_output_def DeploymentStatusSucceeded_def
        DeploymentStatusFailed_def DeploymentStatusStopped_def)

text \<open>
  C5.  When the status fetch of delete returns an error, delete makes no Stop call and
  returns exactly one diagnostic, a warning whose summary is the text of the fetch error;
  the diagnostics hold no error and the resource data are unchanged.
\<close>

theorem delete_fetch_error:
  assumes "GetDeployment svc (Some (Id_rd d)) = (deployment, Some err)"
  shows "resourceDeploymentDelete svc d =
           ([GetDeploymentCall (Some (Id_rd d))], Inr ([\<lparr>Severity = Warning, Summary = err\<rparr>], d))
         \<and> stop_calls (fst (resourceDeploymentDelete svc d)) = []
         \<and> \<not> HasError [\<lparr>Severity = Warning, Summary = err\<rparr>]"
  using assms
  by (simp add: resourceDeploymentDelete_def Let_def stop_calls_def HasError_def split: option.splits)

theorem delete_fetch_error_witness:
  "GetDeployment (example_client ''d-9'' (None, None) (None, Some ''unreachable'') None)
       (Some (Id_rd (example_data ''d-1'' example_github))) = (None, Some ''unreachable'')
   \<and> resourceDeploymentDelete (example_client ''d-9'' (None, None) (None, Some ''unreachable'') None)
        (example_data ''d-1'' example_github) =
       ([GetDeploymentCall (Some ''d-1'')],
        Inr ([\<lparr>Severity = Warning, Summary = ''unreachable''\<rparr>], example_data ''d-1'' example_github))"
  using delete_fetch_error
    [of "example_client ''d-9'' (None, None) (None, Some ''unreachable'') None"
        "example_data ''d-1'' example_github" None "''unreachable''"]
  by (simp add: example_client_def example_data_def)

section \<open>Read\<close>

text \<open>
  C8.  In read, when the status fetch succeeds and storing \<^verbatim>\<open>deployment_status\<close> in the
  resource data fails, the diagnostics are built from the fetch error, which is nil at that
  point: read returns no diagnostics at all, so the failed write is reported as success.
\<close>

theorem read_set_failure:
  assumes "GetDeployment svc (Some (Id_rd d)) = (Some deployment, None)"
    and "DeploymentInfo deployment = Some info"
    and "SetError d ''deployment_status'' (AString (Status info)) = Some e"
  shows "resourceDeploymentRead svc d = ([GetDeploymentCall (Some (Id_rd d))], Inr ([], d))
         \<and> \<not> HasError []"
  using assms
  by (simp add: resourceDeploymentRead_def Set_rd_def FromErr_def Let_def HasError_def)

theorem read_set_failure_witness:
  "SetError ((example_data ''d-1'' example_github)\<lparr>SetError := \<lambda>k v. Some ''invalid type''\<rparr>)
       ''deployment_status'' (AString ''Succeeded'') = Some ''invalid type''
   \<and> resourceDeploymentRead
        (example_client ''d-9'' (None, None) (Some (example_output ''d-1'' ''Succeeded''), None) None)
        ((example_data ''d-1'' example_github)\<lparr>SetError := \<lambda>k v. Some ''invalid type''\<rparr>) =
       ([GetDeploymentCall (Some ''d-1'')],
        Inr ([], (example_data ''d-1'' example_github)\<lparr>SetError := \<lambda>k v. Some ''invalid type''\<rparr>))"
  using read_set_failure
    [of "example_client ''d-9'' (None, None) (Some (example_output ''d-1'' ''Succeeded''), None) None"
        "(example_data ''d-1'' example_github)\<lparr>SetError := \<lambda>k v. Some ''invalid type''\<rparr>"
        "example_output ''d-1'' ''Succeeded''"
        "\<lparr>DeploymentId = Some ''d-1'', Status = ''Succeeded''\<rparr>" "''invalid type''"]
  by (simp add: example_client_def example_data_def example_output_def)

section \<open>The revision resolver\<close>

subsection \<open>The digest\<close>

lemma length_EncodeToString: "length (EncodeToString bs) = 2 * length bs"
  by (induction bs) simp_all

lemma nibble_bounds:
  fixes b :: byte
  shows "unat (drop_bit 4 b) < 16" and "unat (b AND 0x0f) < 16"
proof -
  have "unat (drop_bit 4 b) = drop_bit 4 (unat b)"
    by (simp only: unat_drop_bit_eq)
  then have "unat (drop_bit 4 b) = unat b div 2 ^ 4"
    by (simp only: drop_bit_eq_div)
  moreover have "unat b < 2 ^ 8"
    using unsigned_less [of b] by simp
  ultimately show "unat (drop_bit 4 b) < 16" by simp
  have "unat (b AND 0x0f) \<le> unat (0x0f :: byte)"
    by (rule word_and_le1 [THEN word_le_nat_alt [THEN iffD1]])
  then show "unat (b AND 0x0f) < 16" by simp
qed

text \<open>The encoding uses the digits and the lowercase letters a to f only.\<close>

lemma EncodeToString_lowercase: "set (EncodeToString bs) \<subseteq> set hextable"
proof (induction bs)
  case Nil
  then show ?case by simp
next
  case (Cons b bs)
  have "length hextable = 16" by (simp add: hextable_def)
  then have "hextable ! unat (drop_bit 4 b) \<in> set hextable"
    and "hextable ! unat (b AND 0x0f) \<in> set hextable"
    using nibble_bounds [of b] by simp_all
  with Cons show ?case by simp
qed

lemma length_sha256_round: "length (sha256_round s kw) = length s"
  by (induction s kw rule: sha256_round.induct) (simp_all add: Let_def)

lemma length_foldl_round: "length (foldl sha256_round s kws) = length s"
  by (induction kws arbitrary: s) (simp_all add: length_sha256_round)

lemma length_sha256_block: "length (sha256_block h block) = length h"
  by (simp add: sha256_block_def Let_def length_foldl_round)

lemma length_foldl_block: "length (foldl sha256_block h blocks) = length h"
  by (induction blocks arbitrary: h) (simp_all add: length_sha256_block)

lemma length_concat_be32: "length (concat (map be32 ws)) = 4 * length ws"
  by (induction ws) (simp_all add: be32_def)

lemma length_Sum256: "length (Sum256 data) = 32"
  by (simp add: Sum256_def Let_def length_concat_be32 length_foldl_block sha256_init_def)

lemma length_digest: "length (EncodeToString (Sum256 data)) = 64"
  by (simp add: length_EncodeToString length_Sum256)

text \<open>The digest of the three bytes \<^verbatim>\<open>abc\<close>, as FIPS 180-4 lists it.\<close>

lemma digest_abc:
  "EncodeToString (Sum256 (bytes ''abc'')) =
     ''ba7816bf8f01cfea414140de5dae2223b00361a396177a9cb410ff61f20015ad''"
  by code_simp

subsection \<open>Inline content\<close>

lemma appspec_hash_absent:
  assumes "index appSpecContent ''content'' = AString content"
    and "is_nil (index appSpecContent ''sha256'')"
  shows "prepareDeploymentInputWithAppSpecContent applicationName deploymentGroupName appSpecContent =
           Inr \<lparr>ApplicationName = Some applicationName,
                DeploymentGroupName = Some deploymentGroupName,
                Revision = Some
                  \<lparr>RevisionType = RevisionLocationTypeAppSpecContent,
                   S3Location = None, GitHubLocation = None,
                   AppSpecContent = Some
                     \<lparr>Content = Some content,
                      Sha256 = Some (EncodeToString (Sum256 (bytes content)))\<rparr>\<rparr>\<rparr>"
  using assms by (simp add: prepareDeploymentInputWithAppSpecContent_def)

lemma appspec_hash_supplied:
  assumes "index appSpecContent ''content'' = AString content"
    and "index appSpecContent ''sha256'' = AString hash"
  shows "prepareDeploymentInputWithAppSpecContent applicationName deploymentGroupName appSpecContent =
           Inr \<lparr>ApplicationName = Some applicationName,
                DeploymentGroupName = Some deploymentGroupName,
                Revision = Some
                  \<lparr>RevisionType = RevisionLocationTypeAppSpecContent,
                   S3Location = None, GitHubLocation = None,
                   AppSpecContent = Some \<lparr>Content = Some content, Sha256 = Some hash\<rparr>\<rparr>\<rparr>"
  using assms by (simp add: prepareDeploymentInputWithAppSpecContent_def)

text \<open>
  C3.  The resolver computes the digest only when the hash entry of the block is the nil
  interface.  An inline-content block whose hash is the empty string (which is also how a
  hash left out of the configuration reads) is not nil: the empty string is passed on as
  the hash of the request, and the SHA-256 digest of the content, here of \<^verbatim>\<open>abc\<close>, is
  not computed.
\<close>

theorem appspec_empty_hash_passed_through:
  "resourceDeploymentCreate_input (example_data [] (example_appspec [])) =
     Inr \<lparr>ApplicationName = Some ''app'', DeploymentGroupName = Some ''group'',
          Revision = Some
            \<lparr>RevisionType = ''AppSpecContent'', S3Location = None, GitHubLocation = None,
             AppSpecContent = Some \<lparr>Content = Some ''abc'', Sha256 = Some []\<rparr>\<rparr>\<rparr>
   \<and> EncodeToString (Sum256 (bytes ''abc'')) =
       ''ba7816bf8f01cfea414140de5dae2223b00361a396177a9cb410ff61f20015ad''"
  by (simp add: resolver_defs example_defs digest_abc)

subsection \<open>The three variants\<close>

lemma s3_string_bundle_type_panics:
  assumes "index s3Location ''bundle_type'' = AString bundleType"
  shows "prepareDeploymentInputWithS3Location applicationName deploymentGroupName s3Location =
           Inl InterfaceConversion"
proof (cases "assert_string (index s3Location ''bucket'')")
  case (Inl p)
  then show ?thesis
    by (cases "index s3Location ''bucket''")
       (simp_all add: prepareDeploymentInputWithS3Location_def)
next
  case bucket: (Inr b)
  show ?thesis
  proof (cases "assert_string (index s3Location ''key'')")
    case (Inl p)
    then show ?thesis
      using bucket
      by (cases "index s3Location ''key''")
         (simp_all add: prepareDeploymentInputWithS3Location_def)
  next
    case (Inr k)
    with bucket assms show ?thesis
      by (simp add: prepareDeploymentInputWithS3Location_def)
  qed
qed

text \<open>With a value of the dynamic type \<^verbatim>\<open>codedeployTypes.BundleType\<close>, which the schema
  never supplies, the S3 function does return a request; the GitHub function returns one
  for string values.\<close>

lemma s3_resolves_with_BundleType:
  assumes "index s3Location ''bucket'' = AString bucket"
    and "index s3Location ''key'' = AString key"
    and "index s3Location ''bundle_type'' = ABundleType bundleType"
  shows "prepareDeploymentInputWithS3Location applicationName deploymentGroupName s3Location =
           Inr \<lparr>ApplicationName = Some applicationName,
                DeploymentGroupName = Some deploymentGroupName,
                Revision = Some
                  \<lparr>RevisionType = RevisionLocationTypeS3,
                   S3Location = Some \<lparr>Bucket = Some bucket, Key = Some key, BundleType = bundleType\<rparr>,
                   GitHubLocation = None, AppSpecContent = None\<rparr>\<rparr>"
  using assms by (simp add: prepareDeploymentInputWithS3Location_def)

lemma github_resolves:
  assumes "index githubLocation ''repository'' = AString repository"
    and "index githubLocation ''commit_id'' = AString commitId"
  shows "prepareDeploymentInputWithGitHubLocation applicationName deploymentGroupName githubLocation =
           Inr \<lparr>ApplicationName = Some applicationName,
                DeploymentGroupName = Some deploymentGroupName,
                Revision = Some
                  \<lparr>RevisionType = RevisionLocationTypeGitHub,
                   S3Location = None,
                   GitHubLocation = Some \<lparr>Repository = Some repository, CommitId = Some commitId\<rparr>,
                   AppSpecContent = None\<rparr>\<rparr>"
  using assms by (simp add: prepareDeploymentInputWithGitHubLocation_def)

text \<open>Whenever the dispatch of create yields a request for one of the three revision
  types, the request names that type and has exactly the matching variant populated.\<close>

lemma resolved_revision_matches:
  assumes "resourceDeploymentCreate_input d = Inr req"
    and "first_block (Get d ''revision'') = Inr revision"
    and "index revision ''revision_type'' = AString revisionType"
    and "revisionType \<in> {RevisionLocationTypeS3, RevisionLocationTypeGitHub,
                            RevisionLocationTypeAppSpecContent}"
  shows "\<exists>r. Revision req = Some r \<and> RevisionType r = revisionType
            \<and> (S3Location r \<noteq> None) = (revisionType = RevisionLocationTypeS3)
            \<and> (GitHubLocation r \<noteq> None) = (revisionType = RevisionLocationTypeGitHub)
            \<and> (AppSpecContent r \<noteq> None) = (revisionType = RevisionLocationTypeAppSpecContent)"
  using assms
  by (auto simp add: resourceDeploymentCreate_input_def
        prepareDeploymentInputWithS3Location_def prepareDeploymentInputWithGitHubLocation_def
        prepareDeploymentInputWithAppSpecContent_def
        RevisionLocationTypeS3_def RevisionLocationTypeGitHub_def RevisionLocationTypeAppSpecContent_def
        split: sum.splits if_splits)

text \<open>
  C7.  For the revision type S3 no request is resolved from a block as the schema supplies
  it: \<^verbatim>\<open>bundle_type\<close> is a string attribute, so its value has the dynamic type
  \<^verbatim>\<open>string\<close>, and the assertion to \<^verbatim>\<open>codedeployTypes.BundleType\<close> panics.  The
  resolver, and with it create, stops there before any request is sent.
\<close>

theorem create_input_s3_panics:
  "resourceDeploymentCreate_input (example_data [] example_s3) = Inl InterfaceConversion
   \<and> resourceDeploymentCreate (example_client ''d-1'' (None, None) (None, None) None)
        (example_data [] example_s3) = ([], Inl InterfaceConversion)"
  by (simp add: resourceDeploymentCreate_def resolver_defs example_defs)

text \<open>
  C9.  The three functions that prepare the request are the same functions in the earlier
  and in the current version of the resource file.
\<close>

theorem prepare_old_new_equal:
  "prepareDeploymentInputWithS3Location_old = prepareDeploymentInputWithS3Location
   \<and> prepareDeploymentInputWithGitHubLocation_old = prepareDeploymentInputWithGitHubLocation
   \<and> prepareDeploymentInputWithAppSpecContent_old = prepareDeploymentInputWithAppSpecContent"
  by (intro conjI ext)
     (simp_all add: prepareDeploymentInputWithS3Location_old_def
        prepareDeploymentInputWithS3Location_def
        prepareDeploymentInputWithGitHubLocation_old_def
        prepareDeploymentInputWithGitHubLocation_def
        prepareDeploymentInputWithAppSpecContent_old_def
        prepareDeploymentInputWithAppSpecContent_def)

text \<open>
  C10.  When the revision type is a string other than the three known tags, no branch of
  the dispatch is taken: the resolver does not fail, and the first request create sends to
  the service is the zero-valued one, with no application name, no deployment group and no
  revision.
\<close>

theorem create_unknown_revision_type:
  assumes "Get d ''application_name'' = AString applicationName"
    and "Get d ''deployment_group_name'' = AString deploymentGroupName"
    and "Get d ''revision'' = AList (AMap revision # rest)"
    and "revision ''revision_type'' = Some (AString revisionType)"
    and "revisionType \<noteq> RevisionLocationTypeS3"
    and "revisionType \<noteq> RevisionLocationTypeGitHub"
    and "revisionType \<noteq> RevisionLocationTypeAppSpecContent"
  shows "resourceDeploymentCreate_input d = Inr zero_CreateDeploymentInput
         \<and> (\<exists>calls. fst (resourceDeploymentCreate svc d) =
                       CreateDeploymentCall zero_CreateDeploymentInput # calls)
         \<and> ApplicationName zero_CreateDeploymentInput = None
         \<and> DeploymentGroupName zero_CreateDeploymentInput = None
         \<and> Revision zero_CreateDeploymentInput = None"
proof -
  have resolved: "resourceDeploymentCreate_input d = Inr zero_CreateDeploymentInput"
    using assms by (simp add: resourceDeploymentCreate_input_def first_block_def index_def)
  have "\<exists>calls. fst (resourceDeploymentCreate svc d) =
                  CreateDeploymentCall zero_CreateDeploymentInput # calls"
    by (simp add: resourceDeploymentCreate_def resolved Let_def
          split: prod.splits option.splits sum.splits)
  with resolved show ?thesis by (simp add: zero_CreateDeploymentInput_def)
qed

theorem create_unknown_revision_type_witness:
  "resourceDeploymentCreate_input
       (example_data [] (example_revision ''String'' (AList []) (AList []) (AList [])))
     = Inr \<lparr>ApplicationName = None, DeploymentGroupName = None, Revision = None\<rparr>
   \<and> fst (resourceDeploymentCreate (example_client ''d-1'' (None, None) (None, None) None)
          (example_data [] (example_revision ''String'' (AList []) (AList []) (AList [])))) ! 0 =
     CreateDeploymentCall \<lparr>ApplicationName = None, DeploymentGroupName = None, Revision = None\<rparr>"
  using create_unknown_revision_type
    [of "example_data [] (example_revision ''String'' (AList []) (AList []) (AList []))"
        "''app''" "''group''"
        "[''revision_type'' \<mapsto> AString ''String'', ''s3_location'' \<mapsto> AList [],
          ''github_location'' \<mapsto> AList [], ''appspec_content'' \<mapsto> AList []]"
        "[]" "''String''"
        "example_client ''d-1'' (None, None) (None, None) None"]
  by (auto simp add: example_data_def example_revision_def RevisionLocationTypeS3_def
        RevisionLocationTypeGitHub_def RevisionLocationTypeAppSpecContent_def
        zero_CreateDeploymentInput_def)

end
